theory Spec2Isabelle
  imports Complex_Main "HOL-Library.Sublist" "HOL-Library.Multiset"
begin

section \<open>The table of companies\<close>

text \<open>
  \<^verbatim>\<open>app.py\<close> reads \<^verbatim>\<open>data.csv\<close> into a pandas DataFrame and hands its
  columns to pandas and numpy. A float64 cell is a number or NaN (an empty CSV field), so
  a cell is a \<open>real option\<close> with \<open>None\<close> for NaN; the rounding of IEEE arithmetic is not
  modelled, numbers are reals. A row has the company name and the seven numeric columns
  the program reads. The program's column labels are Japanese; the model names the
  columns by datatypes and writes their labels in Latin letters:
  \<^item> the four score columns: \<open>Overall\<close> (sougou score), \<open>Environmental\<close> (kankyou score),
    \<open>Social\<close> (shakai score), \<open>Governance\<close> (governance score);
  \<^item> the three financial columns: \<open>PE_Ratio\<close> ("PE Ratio (TTM)"), \<open>Price_Book\<close>
    ("Price/Book"), \<open>EV_EBITDA\<close> ("Enterprise Value/EBITDA").
  Company names are strings of characters with code points below 256.
\<close>

type_synonym cell = "real option"

record company =
  name :: string
  overall :: cell
  environmental :: cell
  social :: cell
  governance :: cell
  pe_ratio :: cell
  price_book :: cell
  ev_ebitda :: cell

type_synonym dataframe = "company list"

datatype score_column = Overall | Environmental | Social | Governance

datatype financial_column = PE_Ratio | Price_Book | EV_EBITDA

datatype column = Score score_column | Financial financial_column

fun cell_of :: "column \<Rightarrow> company \<Rightarrow> cell" where
  "cell_of (Score Overall) r = overall r"
| "cell_of (Score Environmental) r = environmental r"
| "cell_of (Score Social) r = social r"
| "cell_of (Score Governance) r = governance r"
| "cell_of (Financial PE_Ratio) r = pe_ratio r"
| "cell_of (Financial Price_Book) r = price_book r"
| "cell_of (Financial EV_EBITDA) r = ev_ebitda r"

text \<open>\<^verbatim>\<open>df[col]\<close>: the column as a list of cells, in row order.\<close>

definition series :: "dataframe \<Rightarrow> column \<Rightarrow> cell list" where
  "series df col = map (cell_of col) df"

fun label :: "column \<Rightarrow> string" where
  "label (Score Overall) = ''Sougou Score''"
| "label (Score Environmental) = ''Kankyou Score''"
| "label (Score Social) = ''Shakai Score''"
| "label (Score Governance) = ''Governance Score''"
| "label (Financial PE_Ratio) = ''PE Ratio (TTM)''"
| "label (Financial Price_Book) = ''Price/Book''"
| "label (Financial EV_EBITDA) = ''Enterprise Value/EBITDA''"

text \<open>What the program's calls can raise.\<close>

datatype error = FileNotFoundError | KeyError | TypeError | LinAlgError

section \<open>The pandas calls of \<^verbatim>\<open>calculate_statistics\<close>\<close>

text \<open>The numbers of a column, NaN dropped (\<^verbatim>\<open>skipna=True\<close>, the default).\<close>

fun dropna :: "cell list \<Rightarrow> real list" where
  "dropna [] = []"
| "dropna (None # cs) = dropna cs"
| "dropna (Some x # cs) = x # dropna cs"

text \<open>\<^verbatim>\<open>Series.mean()\<close>: the sum of the numbers over their count, NaN when there is none.\<close>

definition mean :: "cell list \<Rightarrow> cell" where
  "mean cs = (let xs = dropna cs in
     if xs = [] then None else Some (sum_list xs / real (length xs)))"

text \<open>
  \<^verbatim>\<open>Series.median()\<close>: the middle of the sorted numbers, the mean of the two middle
  ones for an even count, NaN when there is none.
\<close>

definition median :: "cell list \<Rightarrow> cell" where
  "median cs = (let xs = sort (dropna cs); n = length xs in
     if n = 0 then None
     else if odd n then Some (xs ! (n div 2))
     else Some ((xs ! (n div 2 - 1) + xs ! (n div 2)) / 2))"

text \<open>
  \<^verbatim>\<open>DataFrame.nlargest(n, col)\<close> with the default \<^verbatim>\<open>keep='first'\<close>, as positions
  into the frame. pandas negates the numbers of the column, sorts their positions with a
  stable sort (\<^verbatim>\<open>kind='mergesort'\<close>), appends the positions of the NaN cells in row
  order and cuts the result at \<open>n\<close>.
\<close>

definition number_idx :: "cell list \<Rightarrow> nat list" where
  "number_idx cs = filter (\<lambda>i. cs ! i \<noteq> None) [0..<length cs]"

definition nan_idx :: "cell list \<Rightarrow> nat list" where
  "nan_idx cs = filter (\<lambda>i. cs ! i = None) [0..<length cs]"

fun neg_value :: "cell \<Rightarrow> real" where
  "neg_value None = 0"
| "neg_value (Some x) = - x"

definition nlargest_order :: "cell list \<Rightarrow> nat list" where
  "nlargest_order cs = sort_key (\<lambda>i. neg_value (cs ! i)) (number_idx cs) @ nan_idx cs"

definition nlargest_idx :: "nat \<Rightarrow> cell list \<Rightarrow> nat list" where
  "nlargest_idx n cs = take n (nlargest_order cs)"

definition nlargest :: "nat \<Rightarrow> column \<Rightarrow> dataframe \<Rightarrow> dataframe" where
  "nlargest n col df = map (\<lambda>i. df ! i) (nlargest_idx n (series df col))"

section \<open>\<^verbatim>\<open>calculate_statistics\<close>\<close>

text \<open>
  The dictionary \<^verbatim>\<open>stats\<close> maps the keys \<^verbatim>\<open>f'{col}_avg'\<close>, \<^verbatim>\<open>f'{col}_median'\<close>
  and \<^verbatim>\<open>f'{col}_top'\<close> of the four score columns to a float or to the list of the names
  of the three companies with the largest score. The function is pure, so its
  \<^verbatim>\<open>st.cache_data\<close> memo, keyed by the frame, changes no result.
\<close>

datatype stat = Number cell | Names "string list"

definition score_columns :: "column list" where
  "score_columns = [Score Overall, Score Environmental, Score Social, Score Governance]"

definition stats_step :: "dataframe \<Rightarrow> column \<Rightarrow> (string \<rightharpoonup> stat) \<Rightarrow> (string \<rightharpoonup> stat)" where
  "stats_step df col stats =
     stats(label col @ ''_avg'' \<mapsto> Number (mean (series df col)),
           label col @ ''_median'' \<mapsto> Number (median (series df col)),
           label col @ ''_top'' \<mapsto> Names (map name (nlargest 3 col df)))"

definition calculate_statistics :: "dataframe \<Rightarrow> (string \<rightharpoonup> stat)" where
  "calculate_statistics df = fold (stats_step df) score_columns Map.empty"

section \<open>The ranking: \<^verbatim>\<open>df.sort_values(by=col, ascending=True).tail(15)\<close>\<close>


definition stable_argsort :: "real list \<Rightarrow> nat list" where
  "stable_argsort xs = sort_key (\<lambda>i. xs ! i) [0..<length xs]"

definition sort_values :: "(real list \<Rightarrow> nat list) \<Rightarrow> column \<Rightarrow> dataframe \<Rightarrow> dataframe" where
  "sort_values argsort col df =
     (let cs = series df col;
          non_nan_idx = number_idx cs;
          indexer = map (\<lambda>k. non_nan_idx ! k) (argsort (dropna cs)) @ nan_idx cs
      in map (\<lambda>i. df ! i) indexer)"

text \<open>\<^verbatim>\<open>DataFrame.tail(n)\<close>: the last \<open>n\<close> rows, all of them when there are fewer.\<close>

definition tail :: "nat \<Rightarrow> 'a list \<Rightarrow> 'a list" where
  "tail n xs = drop (length xs - n) xs"

definition sorted_data :: "(real list \<Rightarrow> nat list) \<Rightarrow> column \<Rightarrow> dataframe \<Rightarrow> dataframe" where
  "sorted_data argsort col df = tail 15 (sort_values argsort col df)"

section \<open>Correlation and trend line\<close>

text \<open>
  \<^verbatim>\<open>Series.corr\<close> keeps the rows where both cells are numbers, returns NaN when fewer
  than \<^verbatim>\<open>min_periods\<close> (1) remain, and otherwise takes the off-diagonal entry of
  \<^verbatim>\<open>np.corrcoef\<close>: the covariance with \<^verbatim>\<open>ddof=1\<close> divided by the two standard
  deviations, clipped to \<open>[-1, 1]\<close>. A division by zero there (one row, or a constant
  column) gives NaN.
\<close>

fun complete_pairs :: "cell list \<Rightarrow> cell list \<Rightarrow> (real \<times> real) list" where
  "complete_pairs (Some x # xs) (Some y # ys) = (x, y) # complete_pairs xs ys"
| "complete_pairs (x # xs) (y # ys) = complete_pairs xs ys"
| "complete_pairs xs ys = []"

definition avg :: "real list \<Rightarrow> real" where
  "avg xs = sum_list xs / real (length xs)"

definition cov :: "real list \<Rightarrow> real list \<Rightarrow> real" where
  "cov xs ys =
     sum_list (map (\<lambda>(x, y). (x - avg xs) * (y - avg ys)) (zip xs ys)) / (real (length xs) - 1)"

definition corrcoef :: "real list \<Rightarrow> real list \<Rightarrow> cell" where
  "corrcoef xs ys =
     (if length xs < 2 then None
      else let c = cov xs ys; dx = cov xs xs; dy = cov ys ys
           in if dx = 0 \<or> dy = 0 then None
              else Some (max (- 1) (min 1 (c / sqrt dx / sqrt dy))))"

definition corr :: "cell list \<Rightarrow> cell list \<Rightarrow> cell" where
  "corr a b =
     (let ps = complete_pairs a b
      in if length ps < 1 then None else corrcoef (map fst ps) (map snd ps))"

text \<open>Line 245: \<^verbatim>\<open>df[score].corr(df[financial])\<close>.\<close>

definition correlation :: "dataframe \<Rightarrow> column \<Rightarrow> column \<Rightarrow> cell" where
  "correlation df a b = corr (series df a) (series df b)"

text \<open>
  \<^verbatim>\<open>np.polyfit(x, y, 1)\<close>, as (slope, intercept). It raises TypeError on an empty
  \<open>x\<close> and on vectors of different lengths, and it filters nothing. It solves the
  least-squares system with LAPACK through a singular value decomposition of the matrix
  built from \<open>x\<close>: a NaN in \<open>x\<close> keeps the decomposition from converging and numpy
  raises LinAlgError; a NaN in \<open>y\<close> alone goes through the solver and both coefficients
  come out NaN. On numbers it returns the least-squares line. When all \<open>x\<close> are equal
  the system has rank 1 and numpy (with a RankWarning) returns the solution of least norm
  of the system whose columns it scaled to unit length; a column of zeros scales to NaN.
\<close>

definition polyfit :: "cell list \<Rightarrow> cell list \<Rightarrow> error + (cell \<times> cell)" where
  "polyfit xs ys =
     (if xs = [] then Inl TypeError
      else if length xs \<noteq> length ys then Inl TypeError
      else if None \<in> set xs then Inl LinAlgError
      else if None \<in> set ys then Inr (None, None)
      else let x = dropna xs; y = dropna ys;
               sxx = sum_list (map (\<lambda>u. (u - avg x) * (u - avg x)) x);
               sxy = sum_list (map (\<lambda>(u, v). (u - avg x) * (v - avg y)) (zip x y))
           in if sxx \<noteq> 0 then Inr (Some (sxy / sxx), Some (avg y - sxy / sxx * avg x))
              else if avg x = 0 then Inl LinAlgError
              else Inr (Some (avg y / (2 * avg x)), Some (avg y / 2)))"

text \<open>Line 260: the trend line is fitted to the two whole columns.\<close>

definition trend :: "dataframe \<Rightarrow> column \<Rightarrow> column \<Rightarrow> error + (cell \<times> cell)" where
  "trend df a b = polyfit (series df a) (series df b)"

text \<open>\<^verbatim>\<open>np.poly1d(c)(x)\<close> on a cell: NaN as soon as a coefficient or \<open>x\<close> is NaN.\<close>

fun poly1d :: "cell \<times> cell \<Rightarrow> cell \<Rightarrow> cell" where
  "poly1d (Some m, Some k) (Some x) = Some (m * x + k)"
| "poly1d (m, k) x = None"

section \<open>The search box: \<^verbatim>\<open>df[df[name].str.contains(search, case=False)]\<close>\<close>

text \<open>
  \<^verbatim>\<open>str.contains\<close> leaves \<^verbatim>\<open>regex\<close> at its default \<^verbatim>\<open>True\<close>: it compiles the
  query with \<^verbatim>\<open>re.compile(pat, re.IGNORECASE)\<close> and keeps the rows whose name
  \<^verbatim>\<open>re.search\<close> matches somewhere. The model covers the patterns built from ordinary
  characters, the dot (any character but a line feed) and the bar (alternation). A
  pattern with one of the other special characters of \<^verbatim>\<open>re\<close> has no compiled form
  in the model (\<open>None\<close>): Python rejects some of them with \<^verbatim>\<open>re.error\<close> and matches the
  others by rules that are not modelled.
\<close>

definition lower :: "char \<Rightarrow> char" where
  "lower c = (let n = (of_char c :: nat)
     in if (65 \<le> n \<and> n \<le> 90) \<or> (192 \<le> n \<and> n \<le> 222 \<and> n \<noteq> 215) then char_of (n + 32) else c)"

datatype atom = Lit char | Dot

type_synonym regex = "atom list list"

definition meta_chars :: "char list" where
  "meta_chars = [CHR ''.'', CHR ''|'', CHR 0x5C, CHR ''^'', CHR ''$'', CHR ''*'', CHR ''+'',
     CHR ''?'', CHR ''{'', CHR ''}'', CHR ''['', CHR '']'', CHR ''('', CHR '')'']"

definition in_fragment :: "char \<Rightarrow> bool" where
  "in_fragment c = (c = CHR ''.'' \<or> c = CHR ''|'' \<or> c \<notin> set meta_chars)"

fun split_bar :: "string \<Rightarrow> string list" where
  "split_bar [] = [[]]"
| "split_bar (c # cs) =
     (if c = CHR ''|'' then [] # split_bar cs
      else (case split_bar cs of [] \<Rightarrow> [[c]] | a # as \<Rightarrow> (c # a) # as))"

definition atom_of :: "char \<Rightarrow> atom" where
  "atom_of c = (if c = CHR ''.'' then Dot else Lit c)"

definition re_compile :: "string \<Rightarrow> regex option" where
  "re_compile pat =
     (if list_all in_fragment pat then Some (map (map atom_of) (split_bar pat)) else None)"

fun atom_matches :: "atom \<Rightarrow> char \<Rightarrow> bool" where
  "atom_matches Dot c = (c \<noteq> CHR 0x0A)"
| "atom_matches (Lit a) c = (lower a = lower c)"

fun match_here :: "atom list \<Rightarrow> string \<Rightarrow> bool" where
  "match_here [] s = True"
| "match_here (a # as) [] = False"
| "match_here (a # as) (c # cs) = (atom_matches a c \<and> match_here as cs)"

fun search_from :: "atom list \<Rightarrow> string \<Rightarrow> bool" where
  "search_from as [] = match_here as []"
| "search_from as (c # cs) = (match_here as (c # cs) \<or> search_from as cs)"

definition re_search :: "regex \<Rightarrow> string \<Rightarrow> bool" where
  "re_search r s = list_ex (\<lambda>as. search_from as s) r"

text \<open>Line 299: the whole frame for an empty query, the matching rows otherwise.\<close>

definition search :: "dataframe \<Rightarrow> string \<Rightarrow> dataframe option" where
  "search df q =
     (if q = [] then Some df
      else (case re_compile q of
              None \<Rightarrow> None
            | Some r \<Rightarrow> Some (filter (\<lambda>row. re_search r (name row)) df)))"

section \<open>\<^verbatim>\<open>load_data\<close> and \<^verbatim>\<open>main\<close>\<close>

text \<open>
  The files are a map from a path to the table \<^verbatim>\<open>pd.read_csv\<close> parses from it, with
  \<open>None\<close> where no file is. \<^verbatim>\<open>load_data\<close> is memoised by \<^verbatim>\<open>st.cache_data\<close>: the
  memo holds the table of the first call that returned, for as long as the server runs,
  and a call that finds it does not read the file. A call that raises stores nothing.
\<close>

type_synonym files = "string \<rightharpoonup> dataframe"

definition read_csv :: "files \<Rightarrow> string \<Rightarrow> error + dataframe" where
  "read_csv fs path = (case fs path of None \<Rightarrow> Inl FileNotFoundError | Some df \<Rightarrow> Inr df)"

definition load_data :: "dataframe option \<Rightarrow> files \<Rightarrow> (error + dataframe) \<times> dataframe option" where
  "load_data memo fs =
     (case memo of
        Some df \<Rightarrow> (Inr df, memo)
      | None \<Rightarrow>
          (case read_csv fs ''data.csv'' of
             Inl e \<Rightarrow> (Inl e, None)
           | Inr df \<Rightarrow> (Inr df, Some df)))"

text \<open>
  What a run puts on the page, in order. The widgets' values come with the run; texts
  are written in English. A run ends when \<^verbatim>\<open>main\<close> returns, when a call raises (the
  page then holds what was put on it before), or where the model has no value for the
  search pattern.
\<close>

datatype ui =
    StError string
  | StImage string
  | StInfo string
  | StTitle string
  | StMarkdown string
  | MetricCard string cell
  | StTabs
  | StSubheader string
  | BarChart "cell list" "string list"
  | ScatterChart cell "cell list" "cell list" "cell list"
  | StDataframe dataframe
  | DownloadButton dataframe

datatype stop = Raised error | Not_Modelled

datatype outcome = Returned | Stopped stop

record widgets =
  ranking_score :: score_column
  scatter_score :: score_column
  financial_metric :: financial_column
  search_text :: string

fun render :: "(stop + ui) list \<Rightarrow> ui list \<times> outcome" where
  "render [] = ([], Returned)"
| "render (Inl s # steps) = ([], Stopped s)"
| "render (Inr u # steps) = (case render steps of (us, out) \<Rightarrow> (u # us, out))"

definition metric_card :: "(string \<rightharpoonup> stat) \<Rightarrow> column \<Rightarrow> stop + ui" where
  "metric_card stats col =
     (case stats (label col @ ''_avg'') of
        Some (Number c) \<Rightarrow> Inr (MetricCard (label col) c)
      | Some (Names ns) \<Rightarrow> Inl (Raised TypeError)
      | None \<Rightarrow> Inl (Raised KeyError))"

definition scatter :: "dataframe \<Rightarrow> column \<Rightarrow> column \<Rightarrow> stop + ui" where
  "scatter df a b =
     (case trend df a b of
        Inl e \<Rightarrow> Inl (Raised e)
      | Inr line \<Rightarrow>
          Inr (ScatterChart (correlation df a b) (series df a) (series df b)
                 (map (poly1d line) (series df a))))"

definition table_steps :: "dataframe \<Rightarrow> string \<Rightarrow> (stop + ui) list" where
  "table_steps df q =
     (case search df q of
        None \<Rightarrow> [Inl Not_Modelled]
      | Some filtered_df \<Rightarrow> [Inr (StDataframe filtered_df), Inr (DownloadButton filtered_df)])"

definition dashboard ::
  "(real list \<Rightarrow> nat list) \<Rightarrow> bool \<Rightarrow> widgets \<Rightarrow> dataframe \<Rightarrow> (string \<rightharpoonup> stat) \<Rightarrow> (stop + ui) list" where
  "dashboard argsort logo w df stats =
     [Inr (if logo then StImage ''logo.png'' else StInfo ''Put logo.png into the application directory''),
      Inr (StTitle ''ESG metrics dashboard''),
      Inr (StMarkdown ''### Main indicators''),
      metric_card stats (Score Overall),
      metric_card stats (Score Environmental),
      metric_card stats (Score Social),
      metric_card stats (Score Governance),
      Inr StTabs,
      Inr (StSubheader ''ESG score ranking''),
      Inr (let sd = sorted_data argsort (Score (ranking_score w)) df
           in BarChart (series sd (Score (ranking_score w))) (map name sd)),
      Inr (StSubheader ''Correlation with financial metrics''),
      scatter df (Score (scatter_score w)) (Financial (financial_metric w)),
      Inr (StSubheader ''Data table'')]
     @ table_steps df (search_text w)
     @ [Inr (StSubheader ''About the data''),
        Inr (StMarkdown ''### Explanation of the indicators'')]"

definition main ::
  "(real list \<Rightarrow> nat list) \<Rightarrow> bool \<Rightarrow> widgets \<Rightarrow> dataframe option \<Rightarrow> files
     \<Rightarrow> (ui list \<times> outcome) \<times> dataframe option" where
  "main argsort logo w memo fs =
     (case load_data memo fs of
        (Inl e, memo') \<Rightarrow>
          (if e = FileNotFoundError
           then (([StError ''Error: the file data.csv was not found''], Returned), memo')
           else (([], Stopped (Raised e)), memo'))
      | (Inr df, memo') \<Rightarrow>
          (render (dashboard argsort logo w df (calculate_statistics df)), memo'))"

section \<open>Notions the statements below use\<close>


text \<open>The rows where the cells of both columns are present.\<close>

definition complete_rows :: "dataframe \<Rightarrow> column \<Rightarrow> column \<Rightarrow> dataframe" where
  "complete_rows df a b = filter (\<lambda>r. cell_of a r \<noteq> None \<and> cell_of b r \<noteq> None) df"



text \<open>The name contains the query, letter case ignored.\<close>

definition contains_ci :: "string \<Rightarrow> string \<Rightarrow> bool" where
  "contains_ci q s = sublist (map lower q) (map lower s)"

text \<open>The positions \<^verbatim>\<open>sort_values\<close> takes the rows from.\<close>

definition indexer :: "(real list \<Rightarrow> nat list) \<Rightarrow> cell list \<Rightarrow> nat list" where
  "indexer argsort cs = map (\<lambda>k. number_idx cs ! k) (argsort (dropna cs)) @ nan_idx cs"

section \<open>Example tables\<close>

text \<open>Four companies; A and C tie on the overall score, and some cells are empty.\<close>

definition company_a :: company where
  "company_a = \<lparr>name = ''A'', overall = Some 80, environmental = Some 70, social = Some 60,
     governance = Some 90, pe_ratio = Some 1000000, price_book = Some 2, ev_ebitda = Some 8\<rparr>"

definition company_b :: company where
  "company_b = \<lparr>name = ''B'', overall = Some 60, environmental = Some 50, social = Some 90,
     governance = Some 90, pe_ratio = Some 5, price_book = None, ev_ebitda = Some 4\<rparr>"

definition company_c :: company where
  "company_c = \<lparr>name = ''C'', overall = Some 80, environmental = None, social = Some 75,
     governance = Some 40, pe_ratio = None, price_book = Some 1, ev_ebitda = None\<rparr>"

definition company_d :: company where
  "company_d = \<lparr>name = ''D'', overall = Some 95, environmental = Some 65, social = None,
     governance = Some 90, pe_ratio = Some 20, price_book = Some 3, ev_ebitda = Some 12\<rparr>"

definition companies :: dataframe where
  "companies = [company_a, company_b, company_c, company_d]"

text \<open>A table whose third row has no PE ratio; the other three lie on a line.\<close>

definition gap_row :: "string \<Rightarrow> real \<Rightarrow> cell \<Rightarrow> company" where
  "gap_row n s pe = \<lparr>name = n, overall = Some s, environmental = Some s, social = Some s,
     governance = Some s, pe_ratio = pe, price_book = Some 1, ev_ebitda = Some 1\<rparr>"

definition gap_table :: dataframe where
  "gap_table = [gap_row ''P'' 10 (Some 5), gap_row ''Q'' 20 (Some 10), gap_row ''R'' 25 None,
     gap_row ''S'' 30 (Some 15)]"


text \<open>Three rows on a line, no cell empty; the widgets as the page first shows them.\<close>

definition line_table :: dataframe where
  "line_table = [gap_row ''P'' 10 (Some 5), gap_row ''Q'' 20 (Some 10), gap_row ''S'' 30 (Some 15)]"

definition default_widgets :: widgets where
  "default_widgets = \<lparr>ranking_score = Overall, scatter_score = Overall,
     financial_metric = PE_Ratio, search_text = ''''\<rparr>"

section \<open>Lookups in the statistics dictionary\<close>

lemma stats_avg:
  "calculate_statistics df (label (Score c) @ ''_avg'') = Some (Number (mean (series df (Score c))))"
  by (cases c) (simp_all add: calculate_statistics_def score_columns_def stats_step_def)





section \<open>The average and the median\<close>



section \<open>The three largest\<close>



















section \<open>Correlation and trend\<close>






lemma complete_pairs_rows:
  "complete_pairs (map f df) (map g df) =
     map (\<lambda>r. (the (f r), the (g r))) (filter (\<lambda>r. f r \<noteq> None \<and> g r \<noteq> None) df)"
proof (induction df)
  case Nil
  show ?case by simp
next
  case (Cons r df)
  then show ?case by (cases "f r"; cases "g r") simp_all
qed

lemma complete_pairs_length:
  "length (complete_pairs (series df a) (series df b)) = length (complete_rows df a b)"
  by (simp add: series_def complete_rows_def complete_pairs_rows)

text \<open>
  Claim C1, as the code has it. When fewer than two rows have both values present, the
  coefficient that \<^verbatim>\<open>corr\<close> returns is NaN: a value, not a raised error.
\<close>

theorem correlation_nan_below_two_pairs:
  "length (complete_rows df a b) < 2 \<Longrightarrow> correlation df a b = None"
  using complete_pairs_length[of df a b]
  by (simp add: correlation_def corr_def corrcoef_def Let_def)

theorem correlation_nan_below_two_pairs_witness:
  "length (complete_rows [company_a] (Score Overall) (Financial PE_Ratio)) < 2 \<and>
   correlation [company_a] (Score Overall) (Financial PE_Ratio) = None"
proof -
  have h: "length (complete_rows [company_a] (Score Overall) (Financial PE_Ratio)) < 2"
    by (simp add: complete_rows_def)
  show ?thesis using h correlation_nan_below_two_pairs[OF h] by simp
qed

text \<open>
  On a table of one row with both values present nothing fails: the coefficient is NaN
  and \<^verbatim>\<open>polyfit\<close> returns a line through the point.
\<close>

theorem correlate_no_insufficient_data_error:
  "length (complete_rows [company_a] (Score Overall) (Financial PE_Ratio)) = 1 \<and>
   correlation [company_a] (Score Overall) (Financial PE_Ratio) = None \<and>
   trend [company_a] (Score Overall) (Financial PE_Ratio) = Inr (Some 6250, Some 500000)"
  by (simp add: complete_rows_def correlation_def corr_def corrcoef_def trend_def polyfit_def
      series_def company_a_def avg_def Let_def)

lemma sqrt_100: "sqrt 100 = 10" by (rule real_sqrt_unique) simp_all
lemma sqrt_25: "sqrt 25 = 5" by (rule real_sqrt_unique) simp_all

text \<open>
  Claim C2 at a table with a missing PE ratio. \<^verbatim>\<open>corr\<close> leaves the row out and
  finds the coefficient 1; \<^verbatim>\<open>polyfit\<close> is given the whole columns and returns NaN for
  both coefficients, where the fit to the rows with both values is the line with slope
  1/2 through the origin.
\<close>

theorem trend_not_filtered:
  "correlation gap_table (Score Overall) (Financial PE_Ratio) = Some 1 \<and>
   trend gap_table (Score Overall) (Financial PE_Ratio) = Inr (None, None) \<and>
   trend (complete_rows gap_table (Score Overall) (Financial PE_Ratio))
     (Score Overall) (Financial PE_Ratio) = Inr (Some (1 / 2), Some 0)"
proof -
  have 1: "correlation gap_table (Score Overall) (Financial PE_Ratio) = Some 1"
    by (simp add: correlation_def corr_def corrcoef_def cov_def avg_def series_def gap_table_def
        gap_row_def Let_def sqrt_100 sqrt_25)
  have 2: "trend gap_table (Score Overall) (Financial PE_Ratio) = Inr (None, None)"
    by (simp add: trend_def polyfit_def series_def gap_table_def gap_row_def)
  have 3: "trend (complete_rows gap_table (Score Overall) (Financial PE_Ratio))
     (Score Overall) (Financial PE_Ratio) = Inr (Some (1 / 2), Some 0)"
    by (simp add: trend_def polyfit_def complete_rows_def series_def gap_table_def gap_row_def
        avg_def Let_def)
  show ?thesis using 1 2 3 by simp
qed

section \<open>Searching by name\<close>

lemma split_bar_no_bar: "CHR ''|'' \<notin> set s \<Longrightarrow> split_bar s = [s]"
  by (induction s) auto

lemma literal_compile:
  assumes "\<forall>c\<in>set q. c \<notin> set meta_chars"
  shows "re_compile q = Some [map Lit q]"
proof -
  have frag: "list_all in_fragment q" using assms by (simp add: list_all_iff in_fragment_def)
  have nobar: "CHR ''|'' \<notin> set q" using assms by (auto simp: meta_chars_def)
  have nodot: "CHR ''.'' \<notin> set q" using assms by (auto simp: meta_chars_def)
  have "map atom_of q = map Lit q" using nodot by (induction q) (auto simp: atom_of_def)
  then show ?thesis using frag nobar by (simp add: re_compile_def split_bar_no_bar)
qed

lemma match_here_literal: "match_here (map Lit q) s = prefix (map lower q) (map lower s)"
proof (induction q arbitrary: s)
  case Nil
  show ?case by simp
next
  case (Cons c q)
  then show ?case by (cases s) auto
qed

lemma search_from_literal: "search_from (map Lit q) s = sublist (map lower q) (map lower s)"
proof (induction s)
  case Nil
  show ?case by (cases q) simp_all
next
  case (Cons c s)
  then show ?case by (simp add: match_here_literal sublist_Cons_right)
qed

text \<open>
  Claim C6, as the code has it. For every table and every query without a special
  character of regular expressions, \<open>search\<close> returns exactly the rows whose name
  contains the query, letter case ignored; the empty query is among them and returns the
  whole table.
\<close>

theorem search_literal_query:
  "(\<forall>c\<in>set q. c \<notin> set meta_chars) \<Longrightarrow>
   search df q = Some (filter (\<lambda>r. contains_ci q (name r)) df)"
proof (cases "q = []")
  case True
  then show ?thesis by (simp add: search_def contains_ci_def)
next
  case False
  assume "\<forall>c\<in>set q. c \<notin> set meta_chars"
  then have "re_compile q = Some [map Lit q]" by (rule literal_compile)
  then show ?thesis using False
    by (simp add: search_def re_search_def search_from_literal contains_ci_def)
qed

theorem search_literal_query_witness:
  "CHR ''a'' \<notin> set meta_chars \<and>
   search companies ''a'' = Some (filter (\<lambda>r. contains_ci ''a'' (name r)) companies) \<and>
   filter (\<lambda>r. contains_ci ''a'' (name r)) companies = [company_a]"
proof -
  have h: "\<forall>c\<in>set ''a''. c \<notin> set meta_chars" by (simp add: meta_chars_def)
  have "filter (\<lambda>r. contains_ci ''a'' (name r)) companies = [company_a]" by code_simp
  then show ?thesis using h search_literal_query[OF h, of companies] by simp
qed

text \<open>
  The query of one dot finds the company named A, whose name contains no dot.
\<close>

theorem search_dot_is_not_literal:
  "search [company_a] ''.'' = Some [company_a] \<and> \<not> contains_ci ''.'' (name company_a)"
  by code_simp

lemma search_from_dot: "search_from [Dot] s = list_ex (\<lambda>c. c \<noteq> CHR 0x0A) s"
  by (induction s) auto

lemma search_from_dot_or_newline:
  "(search_from [Dot] s \<or> search_from [Lit (CHR 0x0A)] s) = (s \<noteq> [])"
  by (cases s) auto

text \<open>
  Claim C10. A query is read as a regular expression, not as a literal string: for every
  table the query of a dot, a bar and a line feed returns the rows with a non-empty name,
  and the query of one dot returns the rows whose name has a character other than a line
  feed; on the example table that is every row, though no name there contains a dot.
\<close>

theorem search_query_is_regex:
  "search df [CHR ''.'', CHR ''|'', CHR 0x0A] = Some (filter (\<lambda>r. name r \<noteq> []) df) \<and>
   search df ''.'' = Some (filter (\<lambda>r. list_ex (\<lambda>c. c \<noteq> CHR 0x0A) (name r)) df) \<and>
   search companies ''.'' = Some companies \<and>
   filter (\<lambda>r. contains_ci ''.'' (name r)) companies = []"
proof -
  have c1: "re_compile [CHR ''.'', CHR ''|'', CHR 0x0A] = Some [[Dot], [Lit (CHR 0x0A)]]"
    by (simp add: re_compile_def in_fragment_def atom_of_def meta_chars_def)
  have c2: "re_compile ''.'' = Some [[Dot]]"
    by (simp add: re_compile_def in_fragment_def atom_of_def)
  have 1: "search df [CHR ''.'', CHR ''|'', CHR 0x0A] = Some (filter (\<lambda>r. name r \<noteq> []) df)"
    by (simp add: search_def c1 re_search_def search_from_dot_or_newline del: search_from.simps)
  have 2: "search df ''.'' = Some (filter (\<lambda>r. list_ex (\<lambda>c. c \<noteq> CHR 0x0A) (name r)) df)"
    by (simp add: search_def c2 re_search_def search_from_dot del: search_from.simps)
  have 3: "search companies ''.'' = Some companies" by code_simp
  have 4: "filter (\<lambda>r. contains_ci ''.'' (name r)) companies = []" by code_simp
  show ?thesis using 1 2 3 4 by simp
qed


section \<open>The ranking\<close>



































section \<open>A missing file\<close>

lemma metric_card_value:
  "metric_card (calculate_statistics df) (Score c)
     = Inr (MetricCard (label (Score c)) (mean (series df (Score c))))"
  by (simp add: metric_card_def stats_avg)

text \<open>
  Claim C8, as the code has it. When \<^verbatim>\<open>data.csv\<close> does not exist and the memo of
  \<^verbatim>\<open>load_data\<close> is empty, \<^verbatim>\<open>load_data\<close> fails with FileNotFoundError, and
  \<^verbatim>\<open>main\<close> puts one error message on the page and returns: no card, chart or table
  follows, and the memo stays empty. With a table in the memo \<^verbatim>\<open>load_data\<close> returns
  it and reads no file.
\<close>

theorem missing_file_shows_error_only:
  "fs ''data.csv'' = None \<Longrightarrow>
   load_data None fs = (Inl FileNotFoundError, None) \<and>
   main argsort logo w None fs
     = (([StError ''Error: the file data.csv was not found''], Returned), None) \<and>
   load_data (Some df) fs = (Inr df, Some df)"
  by (simp add: load_data_def read_csv_def main_def)

theorem missing_file_shows_error_only_witness:
  "(Map.empty :: files) ''data.csv'' = None \<and>
   load_data None Map.empty = (Inl FileNotFoundError, None) \<and>
   main stable_argsort False default_widgets None Map.empty
     = (([StError ''Error: the file data.csv was not found''], Returned), None)"
proof -
  have h: "(Map.empty :: files) ''data.csv'' = None" by simp
  show ?thesis using h missing_file_shows_error_only[OF h] by simp
qed

lemma line_table_trend:
  "trend line_table (Score Overall) (Financial PE_Ratio) = Inr (Some (1 / 2), Some 0)"
  by (simp add: trend_def polyfit_def series_def line_table_def gap_row_def avg_def Let_def)

text \<open>
  With a table in the memo and no file, the run goes through to the end and the page
  shows the card of the average overall score.
\<close>

theorem memo_hides_missing_file:
  "(Map.empty :: files) ''data.csv'' = None \<and>
   load_data (Some line_table) Map.empty = (Inr line_table, Some line_table) \<and>
   snd (fst (main stable_argsort False default_widgets (Some line_table) Map.empty)) = Returned \<and>
   MetricCard (label (Score Overall)) (Some 20)
     \<in> set (fst (fst (main stable_argsort False default_widgets (Some line_table) Map.empty)))"
proof -
  have m: "mean (series line_table (Score Overall)) = Some 20"
    by (simp add: mean_def series_def line_table_def gap_row_def)
  have l: "load_data (Some line_table) Map.empty = (Inr line_table, Some line_table)"
    by (simp add: load_data_def)
  have s: "search line_table (search_text default_widgets) = Some line_table"
    by (simp add: search_def default_widgets_def)
  have d: "scatter_score default_widgets = Overall" "financial_metric default_widgets = PE_Ratio"
    by (simp_all add: default_widgets_def)
  show ?thesis
    by (simp add: main_def l dashboard_def metric_card_value m scatter_def d line_table_trend
        table_steps_def s)
qed

end
